theory Spec2Isabelle
  imports Main "HOL-Library.Sublist" "HOL-Library.Multiset"
begin

section \<open>Command-line and configuration volumes (app/main.go)\<close>

subsection \<open>strings.SplitN\<close>

text \<open>
  \<^verbatim>\<open>strings.Index(s, sep)\<close>: the byte offset of the first occurrence of \<open>sep\<close> in
  \<open>s\<close>, Go's \<open>-1\<close> being \<open>None\<close>.
\<close>

fun strings_Index :: "string \<Rightarrow> string \<Rightarrow> nat option" where
  "strings_Index [] sep = (if sep = [] then Some 0 else None)"
| "strings_Index (c # cs) sep =
     (if prefix sep (c # cs) then Some 0
      else map_option Suc (strings_Index cs sep))"

text \<open>
  The loop of \<^verbatim>\<open>genSplit\<close> (with \<open>sepSave = 0\<close>): at most \<open>n\<close> cuts, the rest of
  the string being the last piece.
  \<^verbatim>\<open>
  for i < n {
      m := Index(s, sep)
      if m < 0 { break }
      a[i] = s[:m+sepSave]
      s = s[m+len(sep):]
      i++
  }
  a[i] = s
  \<close>
\<close>

fun genSplit_loop :: "nat \<Rightarrow> string \<Rightarrow> string \<Rightarrow> string list" where
  "genSplit_loop 0 s sep = [s]"
| "genSplit_loop (Suc n) s sep =
     (case strings_Index s sep of
        None \<Rightarrow> [s]
      | Some m \<Rightarrow> take m s # genSplit_loop n (drop (m + length sep) s) sep)"

text \<open>
  \<^verbatim>\<open>strings.SplitN(s, sep, n)\<close> for a non-empty separator and \<open>n \<ge> 0\<close> (the only
  call in the program is \<^verbatim>\<open>SplitN(v, ":", 2)\<close>): \<open>n = 0\<close> gives no piece, and
  \<open>n\<close> is capped at \<open>len(s) + 1\<close> before the loop runs \<open>n - 1\<close> times.
\<close>

definition strings_SplitN :: "string \<Rightarrow> string \<Rightarrow> nat \<Rightarrow> string list" where
  "strings_SplitN s sep n =
     (if n = 0 then []
      else genSplit_loop ((if n > length s + 1 then length s + 1 else n) - 1) s sep)"

subsection \<open>parseVolumes\<close>

record Volume =
  Name :: string
  Path :: string

text \<open>
  \<^verbatim>\<open>status.Volume\<close> is the volume reported; \<^verbatim>\<open>config.Volume\<close> is the entry of
  the configuration file, of which \<^verbatim>\<open>parseVolumes\<close> reads the name and the path, and
  \<^verbatim>\<open>config.Parameters\<close> the configuration, of which it reads the \<open>Volumes\<close>. The pointer \<^verbatim>\<open>conf *config.Parameters\<close> is an option, \<open>nil\<close> being \<open>None\<close>.
\<close>

record config_Volume =
  conf_Name :: string
  conf_Path :: string

record Parameters =
  Volumes :: "config_Volume list"

datatype parse_error = InvalidVolumeFormat

text \<open>The loop over the command-line volumes, which returns at the first bad entry.\<close>

fun parse_cmdline :: "Volume list \<Rightarrow> string list \<Rightarrow> parse_error + Volume list" where
  "parse_cmdline res [] = Inr res"
| "parse_cmdline res (v # vs) =
     (let parts = strings_SplitN v '':'' 2 in
      if length parts \<noteq> 2 then Inl InvalidVolumeFormat
      else parse_cmdline (res @ [\<lparr>Name = parts ! 0, Path = parts ! 1\<rparr>]) vs)"

definition parseVolumes :: "string list \<Rightarrow> Parameters option \<Rightarrow> parse_error + Volume list" where
  "parseVolumes volumes conf =
     (let res = [];
          res = (case conf of
                   None \<Rightarrow> res
                 | Some c \<Rightarrow>
                     if length (Volumes c) > 0
                     then res @ map (\<lambda>v. \<lparr>Name = conf_Name v, Path = conf_Path v\<rparr>) (Volumes c)
                     else res)
      in if length volumes > 0 then parse_cmdline [] volumes else Inr res)"

text \<open>
  The reading of an entry \<open>name:path\<close> in words: the name is what stands before the
  first colon, the path is everything after that colon, further colons included.
\<close>

definition split_at_first_colon :: "string \<Rightarrow> Volume" where
  "split_at_first_colon v =
     \<lparr>Name = takeWhile (\<lambda>x. x \<noteq> CHR '':'') v,
      Path = tl (dropWhile (\<lambda>x. x \<noteq> CHR '':'') v)\<rparr>"

section \<open>Status providers (app/status/external)\<close>

subsection \<open>Requests, responses and what a call leaves behind\<close>

text \<open>
  A Go \<^verbatim>\<open>error\<close> is its message, the string \<^verbatim>\<open>err.Error()\<close> returns;
  \<^verbatim>\<open>fmt.Errorf("...: %w", err)\<close> is the concatenation. A \<^verbatim>\<open>time.Duration\<close> is a number
  of nanoseconds, a \<^verbatim>\<open>time.Time\<close> the nanoseconds since the epoch.
\<close>

type_synonym error = string
type_synonym Duration = int
type_synonym Time = int

definition Minute :: Duration where
  "Minute = 60 * 1000000000"

definition minDuration :: Duration where
  "minDuration = - (2 ^ 63)"

definition maxDuration :: Duration where
  "maxDuration = 2 ^ 63 - 1"

text \<open>
  \<^verbatim>\<open>t.Sub(u)\<close> for times without a monotonic reading: the difference, or the smallest
  or largest duration when the difference does not fit 64 bits.
\<close>

definition time_Sub :: "Time \<Rightarrow> Time \<Rightarrow> Duration" where
  "time_Sub t u =
     (let d = t - u in
      if d < minDuration then minDuration
      else if d > maxDuration then maxDuration
      else d)"

text \<open>\<^verbatim>\<open>d.Milliseconds()\<close>: the integer division of Go, which truncates towards zero.\<close>

definition Milliseconds :: "Duration \<Rightarrow> int" where
  "Milliseconds d = (if d \<ge> 0 then d div 1000000 else - ((- d) div 1000000))"

definition strings_Contains :: "string \<Rightarrow> string \<Rightarrow> bool" where
  "strings_Contains s substr = (strings_Index s substr \<noteq> None)"

definition strings_TrimPrefix :: "string \<Rightarrow> string \<Rightarrow> string" where
  "strings_TrimPrefix s p = (if prefix p s then drop (length p) s else s)"

record Request =
  req_Name :: string
  req_URL :: string

text \<open>
  The decoded replica set status, the anonymous struct \<^verbatim>\<open>replset\<close> of
  \<^verbatim>\<open>replStatus\<close> (\<open>Optime_TS\<close> is the nested field \<^verbatim>\<open>Optime.TS\<close>), and the one of
  older servers, \<^verbatim>\<open>replsetOldVer\<close>.
\<close>

record member =
  member_Name :: string
  StateStr :: string
  Optime_TS :: Time

record replset =
  Set :: string
  OK :: int
  Members :: "member list"

record memberOldVer =
  old_Name :: string
  old_StateStr :: string
  old_Optime :: Time

record replsetOldVer =
  old_Set :: string
  old_OK :: int
  old_Members :: "memberOldVer list"

text \<open>
  The values of a \<^verbatim>\<open>bson.M\<close> and of a response body (\<^verbatim>\<open>map[string]interface{}\<close>),
  as far as the two providers build them. A map is a partial function; a \<^verbatim>\<open>nil\<close> map is
  \<open>None\<close> of the option around it.
\<close>

datatype bval = BString string | BReplset replset

type_synonym bson_M = "string \<Rightarrow> bval option"

datatype jval = JString string | JInt int | JBson "bson_M option"

text \<open>\<^verbatim>\<open>rs[key]\<close> on a map that may be \<open>nil\<close>: reading a \<open>nil\<close> map gives \<open>nil\<close>.\<close>

definition bson_get :: "bson_M option \<Rightarrow> string \<Rightarrow> bval option" where
  "bson_get rs key = (case rs of None \<Rightarrow> None | Some rsm \<Rightarrow> rsm key)"

record Response =
  resp_Name :: string
  StatusCode :: int
  Body :: "string \<Rightarrow> jval option"
  ResponseTime :: int

text \<open>
  What \<^verbatim>\<open>Status\<close> gives: the pair \<^verbatim>\<open>(*Response, error)\<close> it returns, each half \<open>nil\<close>
  (\<open>None\<close>) or not, or the end of the process with an exit code (\<^verbatim>\<open>log.Fatal\<close> prints
  and calls \<^verbatim>\<open>os.Exit(1)\<close>; deferred calls do not run).
\<close>

datatype outcome = Returns "Response option" "error option" | Exits int

text \<open>
  The calls a provider makes to the outside, in order. A \<^verbatim>\<open>context.Context\<close> is the
  background context or one with a timeout on a parent. A call is recorded with the
  context it is given, \<open>None\<close> when the function takes none.
\<close>

datatype Context = Background | WithTimeout Context Duration

datatype call =
    MongoConnect | ClientDisconnect | DbRunCommand
  | SqlOpen | DbPingContext | DbQuery | DbClose
  | RowsColumns | RowsNext | RowsScan | RowsClose

datatype event =
    NewContext Context
  | Cancel Context
  | Call call "Context option"
  | LogFatal error

text \<open>
  One run of \<^verbatim>\<open>Status\<close>: the receiver after the call (the method has a pointer
  receiver), the calls made, and the outcome.
\<close>

record 'p run =
  receiver :: 'p
  trace :: "event list"
  outcome :: outcome

subsection \<open>MongoProvider (mongo_provider.go)\<close>

record MongoProvider =
  TimeOut :: Duration

text \<open>
  A parsed \<^verbatim>\<open>*url.URL\<close>, of which \<^verbatim>\<open>replStatus\<close> reads the host and the query:
  \<open>Query\<close> is the \<^verbatim>\<open>url.Values\<close> that \<^verbatim>\<open>req.Query()\<close> returns, and \<^verbatim>\<open>Values.Get\<close> is
  the first value of the key, or the empty string.
\<close>

record URL =
  Host :: string
  Query :: "string \<Rightarrow> string list"

definition Values_Get :: "(string \<Rightarrow> string list) \<Rightarrow> string \<Rightarrow> string" where
  "Values_Get vs key = (case vs key of [] \<Rightarrow> [] | v # _ \<Rightarrow> v)"

text \<open>
  The \<^verbatim>\<open>*mongo.SingleResult\<close> of \<^verbatim>\<open>RunCommand\<close>: its error, and for each of the two
  \<^verbatim>\<open>Decode\<close> calls the struct it leaves (starting from the zero value) and its error.
\<close>

record SingleResult =
  Err :: "error option"
  Decode_replset :: "replset \<times> error option"
  Decode_replsetOldVer :: "replsetOldVer \<times> error option"

type_synonym client = nat

text \<open>
  The world outside the provider: the Mongo driver, the standard library's parsers
  (\<^verbatim>\<open>url.Parse\<close>, \<^verbatim>\<open>time.ParseDuration\<close>) and the clock (\<open>mongo_Since\<close> is what
  \<^verbatim>\<open>time.Since(st)\<close> returns).
\<close>

record mongo_env =
  Connect :: "string \<Rightarrow> error + client"
  Disconnect :: "client \<Rightarrow> error option"
  url_Parse :: "string \<Rightarrow> error + URL"
  ParseDuration :: "string \<Rightarrow> error + Duration"
  RunCommand :: "client \<Rightarrow> SingleResult"
  mongo_Since :: Duration

text \<open>
  Lines 65 to 72: \<^verbatim>\<open>oplogMaxDelta\<close> is a minute, or the query parameter of that name
  when it is not empty, and an error when that does not parse.
\<close>

definition oplogMaxDelta_of :: "mongo_env \<Rightarrow> URL \<Rightarrow> error + Duration" where
  "oplogMaxDelta_of env req =
     (if Values_Get (Query req) ''oplogMaxDelta'' \<noteq> []
      then (case ParseDuration env (Values_Get (Query req) ''oplogMaxDelta'') of
              Inl err \<Rightarrow> Inl (''can't parse oplogMaxDelta: '' @ Host req @ '': '' @ err)
            | Inr d \<Rightarrow> Inr d)
      else Inr Minute)"

text \<open>
  Lines 104 to 124: the status is decoded as \<^verbatim>\<open>replset\<close>, and when that fails as
  \<^verbatim>\<open>replsetOldVer\<close>, whose set, state and members are copied into \<^verbatim>\<open>replset\<close> (the
  members are appended to what the first decoding left).
\<close>

definition decode_replset :: "SingleResult \<Rightarrow> error + replset" where
  "decode_replset rs =
     (case Decode_replset rs of
        (replset, None) \<Rightarrow> Inr replset
      | (replset, Some _) \<Rightarrow>
          (case Decode_replsetOldVer rs of
             (replsetOldVer, Some err) \<Rightarrow> Inl (''mongo replset can't be extracted: '' @ err)
           | (replsetOldVer, None) \<Rightarrow>
               Inr (replset\<lparr>Set := old_Set replsetOldVer, OK := old_OK replsetOldVer,
                     Members := Members replset @
                       map (\<lambda>m. \<lparr>member_Name = old_Name m, StateStr = old_StateStr m,
                                  Optime_TS = old_Optime m\<rparr>)
                           (old_Members replsetOldVer)\<rparr>)))"

text \<open>
  Lines 132 to 141, the loop over the members, with the two variables it sets; it stops
  at the first member that sets one.
\<close>

fun members_loop :: "Duration \<Rightarrow> Time \<Rightarrow> string \<Rightarrow> string \<Rightarrow> member list \<Rightarrow> string \<times> string" where
  "members_loop oplogMaxDelta primOptime status optime [] = (status, optime)"
| "members_loop oplogMaxDelta primOptime status optime (m # ms) =
     (if StateStr m \<noteq> ''PRIMARY'' \<and> StateStr m \<noteq> ''SECONDARY'' \<and> StateStr m \<noteq> ''ARBITER''
      then (''failed'', optime)
      else if StateStr m = ''SECONDARY'' \<and> time_Sub primOptime (Optime_TS m) > oplogMaxDelta
      then (status, ''failed'')
      else members_loop oplogMaxDelta primOptime status optime ms)"

text \<open>Lines 126 to 146: the map returned for a decoded replica set.\<close>

definition replset_report :: "Duration \<Rightarrow> replset \<Rightarrow> error + bson_M" where
  "replset_report oplogMaxDelta replset =
     (case Members replset of
        [] \<Rightarrow> Inl ''mongo replset is empty''
      | m0 # _ \<Rightarrow>
          (let primOptime = Optime_TS m0;
               (status, optime) =
                  members_loop oplogMaxDelta primOptime ''ok'' ''ok'' (Members replset);
               status = (if OK replset \<noteq> 1 then ''failed'' else status)
           in Inr [''info'' \<mapsto> BReplset replset, ''status'' \<mapsto> BString status,
                   ''optime'' \<mapsto> BString optime]))"

text \<open>
  \<^verbatim>\<open>replStatus\<close>: the calls it makes, and the pair \<^verbatim>\<open>(bson.M, error)\<close> it returns.
\<close>

definition replStatus ::
  "MongoProvider \<Rightarrow> mongo_env \<Rightarrow> Context \<Rightarrow> client \<Rightarrow> URL
     \<Rightarrow> event list \<times> bson_M option \<times> error option" where
  "replStatus m env ctx client req =
     (case oplogMaxDelta_of env req of
        Inl err \<Rightarrow> ([], None, Some err)
      | Inr oplogMaxDelta \<Rightarrow>
          (let rs = RunCommand env client;
               tr = [Call DbRunCommand (Some ctx)]
           in case Err rs of
                Some e \<Rightarrow>
                  if \<not> strings_Contains e ''NoReplicationEnabled''
                  then (tr, None, Some (''mongo replset can't be extracted: '' @ e))
                  else (tr, None, None)
              | None \<Rightarrow>
                  (case decode_replset rs of
                     Inl err \<Rightarrow> (tr, None, Some err)
                   | Inr replset \<Rightarrow>
                       (case replset_report oplogMaxDelta replset of
                          Inl err \<Rightarrow> (tr, None, Some err)
                        | Inr res \<Rightarrow> (tr, Some res, None)))))"

text \<open>
  \<^verbatim>\<open>Status\<close>. The two deferred calls run at every return, the disconnection before the
  cancellation; a failed disconnection is only logged.
\<close>

definition mongo_Status :: "MongoProvider \<Rightarrow> mongo_env \<Rightarrow> Request \<Rightarrow> MongoProvider run" where
  "mongo_Status m env req =
     (let ctx = WithTimeout Background (MongoProvider.TimeOut m);
          started = [NewContext ctx, Call MongoConnect (Some ctx)]
      in case Connect env (req_URL req) of
           Inl err \<Rightarrow>
             \<lparr>receiver = m, trace = started @ [Cancel ctx],
              outcome = Returns None
                (Some (''mongo connect failed: '' @ req_Name req @ '' '' @ req_URL req @ '': '' @ err))\<rparr>
         | Inr client \<Rightarrow>
             (let deferred = [Call ClientDisconnect (Some ctx), Cancel ctx]
              in case url_Parse env (req_URL req) of
                   Inl err \<Rightarrow>
                     \<lparr>receiver = m, trace = started @ deferred,
                      outcome = Returns None
                        (Some (''mongo url parse failed: '' @ req_Name req @ '' '' @ req_URL req
                               @ '': '' @ err))\<rparr>
                 | Inr uu \<Rightarrow>
                     (case replStatus m env ctx client uu of
                        (tr, rs, Some err) \<Rightarrow>
                          \<lparr>receiver = m, trace = started @ tr @ deferred,
                           outcome = Returns None
                             (Some (''mongo repl status failed: '' @ req_Name req @ '' ''
                                    @ req_URL req @ '': '' @ err))\<rparr>
                      | (tr, rs, None) \<Rightarrow>
                          (let result = \<lparr>resp_Name = req_Name req, StatusCode = 200,
                                         Body = [''status'' \<mapsto> JString ''ok''],
                                         ResponseTime = Milliseconds (mongo_Since env)\<rparr>;
                               result = (if bson_get rs ''info'' \<noteq> None
                                         then result\<lparr>Body := (Body result)(''rs'' \<mapsto> JBson rs)\<rparr>
                                         else result)
                           in \<lparr>receiver = m, trace = started @ tr @ deferred,
                               outcome = Returns (Some result) None\<rparr>))))"

subsection \<open>The verdict on a replica set, in words\<close>

text \<open>
  A member is in a bad state when its state is none of PRIMARY, SECONDARY and ARBITER. A
  member lags when it is a SECONDARY whose optime is behind the first member's by more
  than \<open>oplogMaxDelta\<close>. The members scanned are those before the first one in a bad state.
\<close>

definition bad_state :: "member \<Rightarrow> bool" where
  "bad_state m = (StateStr m \<notin> {''PRIMARY'', ''SECONDARY'', ''ARBITER''})"

definition lags :: "Duration \<Rightarrow> Time \<Rightarrow> member \<Rightarrow> bool" where
  "lags oplogMaxDelta primOptime m =
     (StateStr m = ''SECONDARY'' \<and> time_Sub primOptime (Optime_TS m) > oplogMaxDelta)"

definition scanned :: "member list \<Rightarrow> member list" where
  "scanned ms = takeWhile (\<lambda>m. \<not> bad_state m) ms"

subsection \<open>MysqlProvider (mysql_provider.go)\<close>

record MysqlProvider =
  TimeOut :: Duration

text \<open>
  The \<^verbatim>\<open>*sql.Rows\<close> of a query: what \<^verbatim>\<open>Columns\<close> returns, and for each row that
  \<^verbatim>\<open>Next\<close> announces what \<^verbatim>\<open>Scan\<close> gives, an error or the values of the row, one for
  each column (a \<^verbatim>\<open>sql.RawBytes\<close> is \<open>nil\<close> for NULL, \<open>None\<close> here).
\<close>

record Rows =
  Columns :: "error + string list"
  scans :: "(error + string option list) list"

type_synonym db = nat

text \<open>
  The world outside the provider: \<^verbatim>\<open>database/sql\<close> with the MySQL driver,
  \<^verbatim>\<open>strconv.Atoi\<close> and the clock. \<^verbatim>\<open>db.Query\<close> takes no context: it is
  \<^verbatim>\<open>QueryContext\<close> with \<^verbatim>\<open>context.Background()\<close>.
\<close>

record mysql_env =
  sql_Open :: "string \<Rightarrow> string \<Rightarrow> error + db"
  db_PingContext :: "db \<Rightarrow> error option"
  db_Query :: "db \<Rightarrow> string \<Rightarrow> error + Rows"
  strconv_Atoi :: "string \<Rightarrow> error + int"
  mysql_Since :: Duration

text \<open>Lines 85 to 94: the loop over the columns of one scanned row.\<close>

fun columns_loop ::
  "(string \<Rightarrow> error + int) \<Rightarrow> int \<Rightarrow> (string \<times> string option) list \<Rightarrow> error + int" where
  "columns_loop atoi secondsBehindMaster [] = Inr secondsBehindMaster"
| "columns_loop atoi secondsBehindMaster ((col, v) # rest) =
     (if col = ''Seconds_Behind_Master'' then
        (case v of
           None \<Rightarrow> columns_loop atoi secondsBehindMaster rest
         | Some bytes \<Rightarrow>
             (case atoi bytes of
                Inl err \<Rightarrow> Inl err
              | Inr n \<Rightarrow> columns_loop atoi n rest))
      else columns_loop atoi secondsBehindMaster rest)"

text \<open>Lines 81 to 95: the loop over the rows.\<close>

fun rows_loop ::
  "mysql_env \<Rightarrow> string list \<Rightarrow> int \<Rightarrow> (error + string option list) list
     \<Rightarrow> event list \<times> (error + int)" where
  "rows_loop env columns secondsBehindMaster [] =
     ([Call RowsNext None], Inr secondsBehindMaster)"
| "rows_loop env columns secondsBehindMaster (scan # rest) =
     (case scan of
        Inl err \<Rightarrow> ([Call RowsNext None, Call RowsScan None], Inl err)
      | Inr values \<Rightarrow>
          (case columns_loop (strconv_Atoi env) secondsBehindMaster (zip columns values) of
             Inl err \<Rightarrow> ([Call RowsNext None, Call RowsScan None], Inl err)
           | Inr n \<Rightarrow>
               (case rows_loop env columns n rest of
                  (tr, r) \<Rightarrow> ([Call RowsNext None, Call RowsScan None] @ tr, r))))"

definition getSecondsBehindMaster :: "mysql_env \<Rightarrow> db \<Rightarrow> event list \<times> (error + int)" where
  "getSecondsBehindMaster env db =
     (case db_Query env db ''SHOW SLAVE STATUS'' of
        Inl err \<Rightarrow> ([Call DbQuery None], Inl err)
      | Inr rows \<Rightarrow>
          (case Columns rows of
             Inl err \<Rightarrow>
               ([Call DbQuery None, Call RowsColumns None, Call RowsClose None], Inl err)
           | Inr columns \<Rightarrow>
               (case rows_loop env columns 0 (scans rows) of
                  (tr, r) \<Rightarrow>
                    ([Call DbQuery None, Call RowsColumns None] @ tr @ [Call RowsClose None],
                     r))))"

text \<open>
  \<^verbatim>\<open>Status\<close>. When \<^verbatim>\<open>sql.Open\<close> fails, \<^verbatim>\<open>log.Fatal(err)\<close> ends the process with
  exit code 1, and the deferred cancellation does not run.
\<close>

definition mysql_Status :: "MysqlProvider \<Rightarrow> mysql_env \<Rightarrow> Request \<Rightarrow> MysqlProvider run" where
  "mysql_Status m env req =
     (let ctx = WithTimeout Background (MysqlProvider.TimeOut m);
          u = strings_TrimPrefix (req_URL req) ''mysql://'';
          started = [NewContext ctx, Call SqlOpen None]
      in case sql_Open env ''mysql'' u of
           Inl err \<Rightarrow>
             \<lparr>receiver = m, trace = started @ [LogFatal err], outcome = Exits 1\<rparr>
         | Inr db \<Rightarrow>
             (let deferred = [Call DbClose None, Cancel ctx];
                  pinged = started @ [Call DbPingContext (Some ctx)]
              in case db_PingContext env db of
                   Some err \<Rightarrow>
                     \<lparr>receiver = m, trace = pinged @ deferred,
                      outcome = Returns None (Some err)\<rparr>
                 | None \<Rightarrow>
                     (case getSecondsBehindMaster env db of
                        (tr, Inl err) \<Rightarrow>
                          \<lparr>receiver = m, trace = pinged @ tr @ deferred,
                           outcome = Returns
                             (Some \<lparr>resp_Name = req_Name req, StatusCode = 200,
                                    Body = [''status'' \<mapsto> JString ''error'',
                                            ''seconds_behind_master'' \<mapsto> JInt (- 1)],
                                    ResponseTime = Milliseconds (mysql_Since env)\<rparr>)
                             None\<rparr>
                      | (tr, Inr secondsBehindMaster) \<Rightarrow>
                          \<lparr>receiver = m, trace = pinged @ tr @ deferred,
                           outcome = Returns
                             (Some \<lparr>resp_Name = req_Name req, StatusCode = 200,
                                    Body = [''status'' \<mapsto> JString ''ok'',
                                            ''seconds_behind_master'' \<mapsto>
                                              JInt secondsBehindMaster],
                                    ResponseTime = Milliseconds (mysql_Since env)\<rparr>)
                             None\<rparr>)))"

subsection \<open>Sample runs\<close>

text \<open>
  Concrete servers for the evaluations below. The Mongo server at port 27017 is a
  standalone one, as in \<^verbatim>\<open>TestMongoProvider_Status\<close>; nothing listens at port 27000.
\<close>

definition five_seconds :: Duration where
  "five_seconds = 5 * 1000000000"

definition plain_url :: URL where
  "plain_url = \<lparr>Host = ''localhost:27017'', Query = (\<lambda>key. [])\<rparr>"

definition bad_delta_url :: URL where
  "bad_delta_url =
     \<lparr>Host = ''localhost:27017'',
      Query = (\<lambda>key. if key = ''oplogMaxDelta'' then [''abc''] else [])\<rparr>"

definition zero_replset :: replset where
  "zero_replset = \<lparr>Set = [], OK = 0, Members = []\<rparr>"

definition zero_replsetOldVer :: replsetOldVer where
  "zero_replsetOldVer = \<lparr>old_Set = [], old_OK = 0, old_Members = []\<rparr>"

definition standalone_env :: mongo_env where
  "standalone_env =
     \<lparr>Connect = (\<lambda>u. if u = ''mongodb://localhost:27000''
                       then Inl ''server selection error: context deadline exceeded''
                       else Inr 1),
      Disconnect = (\<lambda>c. None),
      url_Parse = (\<lambda>u. if u = ''mongodb://localhost:27017/?oplogMaxDelta=abc''
                         then Inr bad_delta_url else Inr plain_url),
      ParseDuration = (\<lambda>s. if s = ''2m'' then Inr (2 * Minute)
                             else Inl (''time: invalid duration '' @ s)),
      RunCommand = (\<lambda>c. \<lparr>Err = Some ''(NoReplicationEnabled) not running with --replSet'',
                          Decode_replset = (zero_replset, None),
                          Decode_replsetOldVer = (zero_replsetOldVer, None)\<rparr>),
      mongo_Since = 3000000\<rparr>"

text \<open>
  Two replica sets of three members: in the first a SECONDARY 100 seconds behind stands
  before a member that is down, in the second the member that is down stands first.
\<close>

definition lagging_then_down :: replset where
  "lagging_then_down =
     \<lparr>Set = ''rs0'', OK = 1,
      Members =
        [\<lparr>member_Name = ''a:27017'', StateStr = ''PRIMARY'', Optime_TS = 200000000000\<rparr>,
         \<lparr>member_Name = ''b:27017'', StateStr = ''SECONDARY'', Optime_TS = 100000000000\<rparr>,
         \<lparr>member_Name = ''c:27017'', StateStr = ''(not reachable/healthy)'', Optime_TS = 0\<rparr>]\<rparr>"

definition down_then_lagging :: replset where
  "down_then_lagging =
     \<lparr>Set = ''rs0'', OK = 1,
      Members =
        [\<lparr>member_Name = ''a:27017'', StateStr = ''PRIMARY'', Optime_TS = 200000000000\<rparr>,
         \<lparr>member_Name = ''c:27017'', StateStr = ''(not reachable/healthy)'', Optime_TS = 0\<rparr>,
         \<lparr>member_Name = ''b:27017'', StateStr = ''SECONDARY'', Optime_TS = 100000000000\<rparr>]\<rparr>"

definition replica_env :: "replset \<Rightarrow> mongo_env" where
  "replica_env r =
     standalone_env
       \<lparr>RunCommand := (\<lambda>c. \<lparr>Err = None, Decode_replset = (r, None),
                             Decode_replsetOldVer = (zero_replsetOldVer, None)\<rparr>)\<rparr>"

text \<open>
  A MySQL driver that refuses a data source name without the slash before the database
  name, as \<^verbatim>\<open>go-sql-driver/mysql\<close> does, and a server that is a replica 7 seconds
  behind, or one that denies the status query.
\<close>

definition replica_mysql_env :: mysql_env where
  "replica_mysql_env =
     \<lparr>sql_Open = (\<lambda>driver dsn.
         if CHR ''/'' \<in> set dsn then Inr 1
         else Inl ''invalid DSN: missing the slash separating the database name''),
      db_PingContext = (\<lambda>db. None),
      db_Query = (\<lambda>db q.
         Inr \<lparr>Columns = Inr [''Slave_IO_State'', ''Seconds_Behind_Master''],
              scans = [Inr [Some ''Waiting for source to send event'', Some ''7'']]\<rparr>),
      strconv_Atoi = (\<lambda>s. if s = ''7'' then Inr 7
                            else Inl ''strconv.Atoi: invalid syntax''),
      mysql_Since = 12000000\<rparr>"

definition denied_mysql_env :: mysql_env where
  "denied_mysql_env =
     replica_mysql_env
       \<lparr>db_Query := (\<lambda>db q. Inl ''Error 1227 (42000): Access denied'')\<rparr>"

section \<open>The dispatch engine\<close>

text \<open>
  Modelled from the spec: the Dispatch Engine (\<^verbatim>\<open>RunAll\<close>, its result collection and the
  aggregate verdict), whose code is not among the sources; \<^verbatim>\<open>main.go\<close> only builds its
  inputs. The data model is section 3 of the specification, the algorithm section 4.2.
\<close>

text \<open>
  Modelled from the spec (section 3): the kind of a check, a request of the registry and
  the result of one check.
\<close>

datatype kind = HTTP | Mongo | Mysql | Docker | Program | Nginx | Certificate | File | RMQ

record CheckRequest =
  cr_name :: string
  cr_kind :: kind
  cr_target :: string
  cr_options :: "(string \<times> string) list"

record CheckResult =
  res_name :: string
  ok :: bool
  statusCode :: int
  res_body :: "string \<Rightarrow> jval option"
  responseTimeMillis :: int
  res_error :: "string option"

text \<open>
  Modelled from the spec: a volume entry; the type of \<open>usedPercent\<close> (a float) is left
  open, since the threshold check on it belongs to an external collaborator and is a
  parameter of the engine.
\<close>

record 'f VolumeEntry =
  ve_name :: string
  ve_path :: string
  usedPercent :: 'f
  totalBytes :: int
  freeBytes :: int

text \<open>Modelled from the spec (section 3): the aggregate report.\<close>

record 'f AggregateReport =
  rep_results :: "CheckResult list"
  rep_volumes :: "'f VolumeEntry list"
  overallOk :: bool
  rep_version :: string
  generatedAt :: int

text \<open>
  Modelled from the spec (4.2, step 1): the work items, each request bound to its index.
\<close>

definition work_items :: "CheckRequest list \<Rightarrow> (nat \<times> CheckRequest) list" where
  "work_items requests = zip [0..<length requests] requests"

text \<open>
  Modelled from the spec (4.2, step 5): a finished work item writes its result into the
  slot of its index, whenever it finishes.
\<close>

definition store_result ::
  "nat \<times> CheckResult \<Rightarrow> CheckResult option list \<Rightarrow> CheckResult option list" where
  "store_result done slots = slots[fst done := Some (snd done)]"

text \<open>
  Modelled from the spec (4.2, step 6): the verdict is the conjunction over the \<open>ok\<close> of
  every result and the threshold check of every volume.
\<close>

definition verdict :: "bool list \<Rightarrow> bool" where
  "verdict checks = fold (\<lambda>c acc. acc \<and> c) checks True"

text \<open>
  Modelled from the spec (section 3 and 4.2, steps 5 and 6): the report built from the
  collected results and the volume entries.
\<close>

definition aggregate ::
  "('f VolumeEntry \<Rightarrow> bool) \<Rightarrow> CheckResult list \<Rightarrow> 'f VolumeEntry list \<Rightarrow> string \<Rightarrow> int
     \<Rightarrow> 'f AggregateReport" where
  "aggregate below_threshold rs vs ver now =
     \<lparr>rep_results = rs, rep_volumes = vs,
      overallOk = verdict (map ok rs @ map below_threshold vs),
      rep_version = ver, generatedAt = now\<rparr>"

text \<open>
  Modelled from the spec (4.2): \<^verbatim>\<open>RunAll\<close>. \<open>check\<close> is the execution of one work item
  (the provider's \<^verbatim>\<open>Status\<close> under its deadline, every error, timeout and fault turned
  into a failed result), which gives exactly one result. The checks run concurrently, at
  most \<open>maxConcurrency\<close> at a time, and finish in any order: \<open>completion\<close> is the work
  items in the order in which they finish. The results are read from the slots in index
  order.
\<close>

definition RunAll ::
  "(CheckRequest \<Rightarrow> CheckResult) \<Rightarrow> ('f VolumeEntry \<Rightarrow> bool) \<Rightarrow> 'f VolumeEntry list
     \<Rightarrow> string \<Rightarrow> int
     \<Rightarrow> CheckRequest list \<Rightarrow> int \<Rightarrow> (nat \<times> CheckRequest) list \<Rightarrow> 'f AggregateReport" where
  "RunAll check below_threshold vs ver now requests maxConcurrency completion =
     (let finished = map (\<lambda>(i, req). (i, check req)) completion;
          slots = fold store_result finished (replicate (length requests) None)
      in aggregate below_threshold (List.map_filter id slots) vs ver now)"

text \<open>Three requests and a check that fails the second, for the evaluations below.\<close>

definition three_requests :: "CheckRequest list" where
  "three_requests =
     [\<lparr>cr_name = ''web'', cr_kind = HTTP, cr_target = ''http://localhost/ping'', cr_options = []\<rparr>,
      \<lparr>cr_name = ''db'', cr_kind = Mysql, cr_target = ''mysql://localhost:3306/'', cr_options = []\<rparr>,
      \<lparr>cr_name = ''cert'', cr_kind = Certificate, cr_target = ''https://localhost'',
       cr_options = []\<rparr>]"

definition sample_check :: "CheckRequest \<Rightarrow> CheckResult" where
  "sample_check req =
     \<lparr>res_name = cr_name req, ok = (cr_kind req \<noteq> Mysql),
      statusCode = (if cr_kind req = Mysql then 500 else 200),
      res_body = Map.empty, responseTimeMillis = 5, res_error = None\<rparr>"

definition root_volume :: "int VolumeEntry" where
  "root_volume = \<lparr>ve_name = ''root'', ve_path = ''/'', usedPercent = 40,
                   totalBytes = 1000, freeBytes = 600\<rparr>"

definition below_80 :: "int VolumeEntry \<Rightarrow> bool" where
  "below_80 v = (usedPercent v < 80)"

section \<open>Properties of parseVolumes\<close>

lemma strings_Index_char:
  "strings_Index s [c] =
     (if c \<in> set s then Some (length (takeWhile (\<lambda>x. x \<noteq> c) s)) else None)"
  by (induction s) auto

lemma strings_SplitN_char_2:
  "strings_SplitN v [c] 2 =
     (if c \<in> set v
      then [takeWhile (\<lambda>x. x \<noteq> c) v, tl (dropWhile (\<lambda>x. x \<noteq> c) v)]
      else [v])"
proof (cases v)
  case Nil
  then show ?thesis by (simp add: strings_SplitN_def)
next
  case (Cons a as)
  have n: "(if 2 > length v + 1 then length v + 1 else 2) - 1 = Suc 0"
    using Cons by simp
  have d: "drop (Suc (length (takeWhile (\<lambda>x. x \<noteq> c) v))) v
             = tl (dropWhile (\<lambda>x. x \<noteq> c) v)"
    by (simp add: dropWhile_eq_drop drop_Suc drop_tl)
  have t: "take (length (takeWhile (\<lambda>x. x \<noteq> c) v)) v = takeWhile (\<lambda>x. x \<noteq> c) v"
    by (rule takeWhile_eq_take [symmetric])
  show ?thesis
    unfolding strings_SplitN_def n
    by (simp add: strings_Index_char d t)
qed

lemma parse_cmdline_eq:
  "parse_cmdline res vs =
     (if \<forall>v \<in> set vs. CHR '':'' \<in> set v then Inr (res @ map split_at_first_colon vs)
      else Inl InvalidVolumeFormat)"
  by (induction vs arbitrary: res)
     (auto simp: strings_SplitN_char_2 split_at_first_colon_def Let_def)

text \<open>
  C10. The command-line volumes take absolute precedence: a non-empty command-line list
  gives exactly its own entries, in order, each split at its first colon (the
  configuration's volumes are dropped, not merged), or the error and no list as soon as one
  entry has no colon; an empty command-line list gives the configuration's volumes in
  their order (none when there is no configuration).
\<close>

theorem parseVolumes_cmdline_precedence:
  "parseVolumes volumes conf =
     (if volumes \<noteq> [] then
        (if \<forall>v \<in> set volumes. CHR '':'' \<in> set v
         then Inr (map split_at_first_colon volumes)
         else Inl InvalidVolumeFormat)
      else Inr (case conf of
                  None \<Rightarrow> []
                | Some c \<Rightarrow> map (\<lambda>v. \<lparr>Name = conf_Name v, Path = conf_Path v\<rparr>) (Volumes c)))"
  by (cases conf) (simp_all add: parseVolumes_def parse_cmdline_eq)

theorem parseVolumes_cmdline_precedence_witness:
  "parseVolumes [''root:/'', ''data:/mnt/a:b'']
       (Some \<lparr>Volumes = [\<lparr>conf_Name = ''x'', conf_Path = ''/x''\<rparr>]\<rparr>)
     = Inr [\<lparr>Name = ''root'', Path = ''/''\<rparr>, \<lparr>Name = ''data'', Path = ''/mnt/a:b''\<rparr>]
   \<and> parseVolumes [''root:/'', ''data'']
       (Some \<lparr>Volumes = [\<lparr>conf_Name = ''x'', conf_Path = ''/x''\<rparr>]\<rparr>)
     = Inl InvalidVolumeFormat
   \<and> parseVolumes []
       (Some \<lparr>Volumes = [\<lparr>conf_Name = ''x'', conf_Path = ''/x''\<rparr>]\<rparr>)
     = Inr [\<lparr>Name = ''x'', Path = ''/x''\<rparr>]"
  using parseVolumes_cmdline_precedence [of "[''root:/'', ''data:/mnt/a:b'']"
          "Some \<lparr>Volumes = [\<lparr>conf_Name = ''x'', conf_Path = ''/x''\<rparr>]\<rparr>"]
        parseVolumes_cmdline_precedence [of "[''root:/'', ''data'']"
          "Some \<lparr>Volumes = [\<lparr>conf_Name = ''x'', conf_Path = ''/x''\<rparr>]\<rparr>"]
        parseVolumes_cmdline_precedence [of "[]"
          "Some \<lparr>Volumes = [\<lparr>conf_Name = ''x'', conf_Path = ''/x''\<rparr>]\<rparr>"]
  by (simp add: split_at_first_colon_def)

section \<open>Properties of MysqlProvider.Status\<close>

text \<open>
  C1. A failure of \<^verbatim>\<open>sql.Open\<close> is not turned into a failed result of the check: for
  the request \<open>mysql://localhost:3306\<close>, whose data source name the driver refuses,
  \<^verbatim>\<open>Status\<close> returns nothing and the process ends with exit code 1.
\<close>

theorem mysql_Status_open_failure_exits:
  "outcome (mysql_Status \<lparr>TimeOut = five_seconds\<rparr> replica_mysql_env
      \<lparr>req_Name = ''db'', req_URL = ''mysql://localhost:3306''\<rparr>) = Exits 1"
  by (simp add: mysql_Status_def replica_mysql_env_def strings_TrimPrefix_def)

text \<open>
  C6. The calls of \<^verbatim>\<open>MysqlProvider.Status\<close> on a server that answers the ping: the
  ping is given the context with the provider's timeout, the status query is not
  (\<^verbatim>\<open>db.Query\<close> takes no context), so nothing bounds the time the query takes.
\<close>

theorem mysql_Status_query_without_deadline:
  "trace (mysql_Status \<lparr>TimeOut = five_seconds\<rparr> denied_mysql_env
      \<lparr>req_Name = ''db'', req_URL = ''mysql://root@tcp(localhost:3306)/''\<rparr>)
   = [NewContext (WithTimeout Background five_seconds), Call SqlOpen None,
      Call DbPingContext (Some (WithTimeout Background five_seconds)),
      Call DbQuery None, Call DbClose None,
      Cancel (WithTimeout Background five_seconds)]"
  by (simp add: mysql_Status_def denied_mysql_env_def replica_mysql_env_def
        strings_TrimPrefix_def getSecondsBehindMaster_def Let_def)

text \<open>
  C5. When the connection opens and the ping succeeds, \<^verbatim>\<open>Status\<close> returns a response and
  no error, whatever the reading of the replication status gives: status code 200, and the
  body \<open>{status: error, seconds_behind_master: -1}\<close> when the reading fails,
  \<open>{status: ok, seconds_behind_master: lag}\<close> when it gives the lag.
\<close>

theorem mysql_Status_ping_ok:
  assumes "sql_Open env ''mysql'' (strings_TrimPrefix (req_URL req) ''mysql://'') = Inr db"
      and "db_PingContext env db = None"
  shows "outcome (mysql_Status m env req) =
           Returns
             (Some \<lparr>resp_Name = req_Name req, StatusCode = 200,
                    Body = (case snd (getSecondsBehindMaster env db) of
                              Inl err \<Rightarrow> [''status'' \<mapsto> JString ''error'',
                                          ''seconds_behind_master'' \<mapsto> JInt (- 1)]
                            | Inr lag \<Rightarrow> [''status'' \<mapsto> JString ''ok'',
                                          ''seconds_behind_master'' \<mapsto> JInt lag]),
                    ResponseTime = Milliseconds (mysql_Since env)\<rparr>)
             None"
proof -
  obtain tr r where g: "getSecondsBehindMaster env db = (tr, r)"
    by (cases "getSecondsBehindMaster env db") auto
  show ?thesis
    by (cases r) (simp_all add: mysql_Status_def Let_def assms g)
qed

lemma getSecondsBehindMaster_replica:
  "snd (getSecondsBehindMaster replica_mysql_env 1) = Inr 7"
  by (simp add: getSecondsBehindMaster_def replica_mysql_env_def)

lemma getSecondsBehindMaster_denied:
  "snd (getSecondsBehindMaster denied_mysql_env 1) = Inl ''Error 1227 (42000): Access denied''"
  by (simp add: getSecondsBehindMaster_def replica_mysql_env_def denied_mysql_env_def)

theorem mysql_Status_ping_ok_witness:
  "outcome (mysql_Status \<lparr>TimeOut = five_seconds\<rparr> replica_mysql_env
      \<lparr>req_Name = ''db'', req_URL = ''mysql://root@tcp(localhost:3306)/''\<rparr>)
   = Returns (Some \<lparr>resp_Name = ''db'', StatusCode = 200,
                    Body = [''status'' \<mapsto> JString ''ok'', ''seconds_behind_master'' \<mapsto> JInt 7],
                    ResponseTime = 12\<rparr>) None
   \<and> outcome (mysql_Status \<lparr>TimeOut = five_seconds\<rparr> denied_mysql_env
      \<lparr>req_Name = ''db'', req_URL = ''mysql://root@tcp(localhost:3306)/''\<rparr>)
   = Returns (Some \<lparr>resp_Name = ''db'', StatusCode = 200,
                    Body = [''status'' \<mapsto> JString ''error'',
                            ''seconds_behind_master'' \<mapsto> JInt (- 1)],
                    ResponseTime = 12\<rparr>) None"
proof -
  have o1: "sql_Open replica_mysql_env ''mysql''
              (strings_TrimPrefix ''mysql://root@tcp(localhost:3306)/'' ''mysql://'') = Inr 1"
    by (simp add: replica_mysql_env_def strings_TrimPrefix_def)
  have p1: "db_PingContext replica_mysql_env 1 = None"
    by (simp add: replica_mysql_env_def)
  have o2: "sql_Open denied_mysql_env ''mysql''
              (strings_TrimPrefix ''mysql://root@tcp(localhost:3306)/'' ''mysql://'') = Inr 1"
    by (simp add: replica_mysql_env_def denied_mysql_env_def strings_TrimPrefix_def)
  have p2: "db_PingContext denied_mysql_env 1 = None"
    by (simp add: replica_mysql_env_def denied_mysql_env_def)
  have s1: "mysql_Since replica_mysql_env = 12000000"
    by (simp add: replica_mysql_env_def)
  have s2: "mysql_Since denied_mysql_env = 12000000"
    by (simp add: replica_mysql_env_def denied_mysql_env_def)
  show ?thesis
    using mysql_Status_ping_ok [of replica_mysql_env
            "\<lparr>req_Name = ''db'', req_URL = ''mysql://root@tcp(localhost:3306)/''\<rparr>" 1
            "\<lparr>TimeOut = five_seconds\<rparr>"]
          mysql_Status_ping_ok [of denied_mysql_env
            "\<lparr>req_Name = ''db'', req_URL = ''mysql://root@tcp(localhost:3306)/''\<rparr>" 1
            "\<lparr>TimeOut = five_seconds\<rparr>"]
          o1 p1 o2 p2
    by (simp add: getSecondsBehindMaster_replica getSecondsBehindMaster_denied s1 s2
          Milliseconds_def del: One_nat_def)
qed

section \<open>The receiver\<close>

text \<open>
  C7. A provider holds its timeout and nothing else, and \<^verbatim>\<open>Status\<close> leaves the receiver
  as it found it, for both providers and on every path.
\<close>

theorem Status_leaves_receiver:
  "receiver (mongo_Status m env req) = m
   \<and> receiver (mysql_Status m' env' req') = m'
   \<and> m = \<lparr>MongoProvider.TimeOut = MongoProvider.TimeOut m\<rparr>
   \<and> m' = \<lparr>MysqlProvider.TimeOut = MysqlProvider.TimeOut m'\<rparr>"
  by (simp add: mongo_Status_def mysql_Status_def Let_def
        split: sum.splits option.splits prod.splits)

section \<open>Properties of MongoProvider.Status\<close>

lemma replStatus_calls:
  "fst (replStatus m env ctx client uu) = [] \<or>
   fst (replStatus m env ctx client uu) = [Call DbRunCommand (Some ctx)]"
  by (simp add: replStatus_def Let_def split: sum.splits option.splits)

text \<open>
  Every call of \<^verbatim>\<open>MongoProvider.Status\<close> is given the context with the provider's
  timeout, and the last thing a run does is to cancel it.
\<close>

lemma mongo_Status_calls_bounded:
  "(\<forall>e \<in> set (trace (mongo_Status m env req)). \<forall>c x. e = Call c x \<longrightarrow>
       x = Some (WithTimeout Background (MongoProvider.TimeOut m)))
   \<and> last (trace (mongo_Status m env req))
       = Cancel (WithTimeout Background (MongoProvider.TimeOut m))"
proof -
  let ?ctx = "WithTimeout Background (MongoProvider.TimeOut m)"
  show ?thesis
  proof (cases "Connect env (req_URL req)")
    case (Inl e)
    then show ?thesis by (simp add: mongo_Status_def Let_def)
  next
    case c: (Inr client)
    show ?thesis
    proof (cases "url_Parse env (req_URL req)")
      case (Inl e)
      with c show ?thesis by (simp add: mongo_Status_def Let_def)
    next
      case u: (Inr uu)
      obtain tr rs e where rp: "replStatus m env ?ctx client uu = (tr, rs, e)"
        by (cases "replStatus m env ?ctx client uu") auto
      have tr: "tr = [] \<or> tr = [Call DbRunCommand (Some ?ctx)]"
        using replStatus_calls [of m env ?ctx client uu] rp by simp
      show ?thesis
        using c u rp tr by (cases e) (auto simp: mongo_Status_def Let_def)
    qed
  qed
qed


lemma contains_NoReplicationEnabled:
  "strings_Contains ''(NoReplicationEnabled) not running with --replSet'' ''NoReplicationEnabled''"
  by (simp add: strings_Contains_def)


text \<open>
  C8, as stated, fails: on a standalone server \<^verbatim>\<open>replStatus\<close> returns an error, and
  \<^verbatim>\<open>Status\<close> with it, when the URL carries an \<open>oplogMaxDelta\<close> that does not parse,
  since the parameter is read before the server is asked.
\<close>

theorem replStatus_standalone_counterexample:
  "replStatus \<lparr>MongoProvider.TimeOut = five_seconds\<rparr> standalone_env
      (WithTimeout Background five_seconds) 1 bad_delta_url
     = ([], None, Some ''can't parse oplogMaxDelta: localhost:27017: time: invalid duration abc'')
   \<and> Err (RunCommand standalone_env 1)
       = Some ''(NoReplicationEnabled) not running with --replSet''
   \<and> strings_Contains ''(NoReplicationEnabled) not running with --replSet''
         ''NoReplicationEnabled''
   \<and> outcome (mongo_Status \<lparr>MongoProvider.TimeOut = five_seconds\<rparr> standalone_env
        \<lparr>req_Name = ''test'', req_URL = ''mongodb://localhost:27017/?oplogMaxDelta=abc''\<rparr>)
       = Returns None
          (Some ''mongo repl status failed: test mongodb://localhost:27017/?oplogMaxDelta=abc: can't parse oplogMaxDelta: localhost:27017: time: invalid duration abc'')"
  by (simp add: contains_NoReplicationEnabled replStatus_def oplogMaxDelta_of_def
        standalone_env_def bad_delta_url_def Values_Get_def mongo_Status_def Let_def)

text \<open>
  C8, amended. When the connection succeeds and the URL parses: on a standalone server
  (\<^verbatim>\<open>replSetGetStatus\<close> fails with an error containing \<open>NoReplicationEnabled\<close>) whose
  \<open>oplogMaxDelta\<close> parameter is absent, empty or parses, \<^verbatim>\<open>replStatus\<close> returns a
  \<open>nil\<close> map and no error, and the body of the response is exactly \<open>{status: ok}\<close>;
  and in every response the key \<open>rs\<close> is present if and only if the server reported a
  replica set.
\<close>

theorem mongo_Status_standalone:
  assumes "Connect env (req_URL req) = Inr client"
      and "url_Parse env (req_URL req) = Inr uu"
  shows "(\<forall>e. Err (RunCommand env client) = Some e
              \<and> strings_Contains e ''NoReplicationEnabled''
              \<and> (Values_Get (Query uu) ''oplogMaxDelta'' = []
                  \<or> (\<exists>d. ParseDuration env (Values_Get (Query uu) ''oplogMaxDelta'') = Inr d))
            \<longrightarrow> snd (replStatus m env (WithTimeout Background (MongoProvider.TimeOut m)) client uu)
                  = (None, None)
                \<and> outcome (mongo_Status m env req)
                  = Returns (Some \<lparr>resp_Name = req_Name req, StatusCode = 200,
                                   Body = [''status'' \<mapsto> JString ''ok''],
                                   ResponseTime = Milliseconds (mongo_Since env)\<rparr>) None)
       \<and> (\<forall>r err. outcome (mongo_Status m env req) = Returns (Some r) err
            \<longrightarrow> (Body r ''rs'' \<noteq> None \<longleftrightarrow> Err (RunCommand env client) = None))"
proof (intro conjI allI impI)
  fix e
  assume a: "Err (RunCommand env client) = Some e
              \<and> strings_Contains e ''NoReplicationEnabled''
              \<and> (Values_Get (Query uu) ''oplogMaxDelta'' = []
                  \<or> (\<exists>d. ParseDuration env (Values_Get (Query uu) ''oplogMaxDelta'') = Inr d))"
  have "\<exists>d. oplogMaxDelta_of env uu = Inr d"
  proof (cases "Values_Get (Query uu) ''oplogMaxDelta'' = []")
    case True
    then show ?thesis by (simp add: oplogMaxDelta_of_def)
  next
    case False
    with a obtain d where "ParseDuration env (Values_Get (Query uu) ''oplogMaxDelta'') = Inr d"
      by blast
    with False show ?thesis by (simp add: oplogMaxDelta_of_def)
  qed
  then obtain d where d: "oplogMaxDelta_of env uu = Inr d" ..
  have r: "replStatus m env (WithTimeout Background (MongoProvider.TimeOut m)) client uu
             = ([Call DbRunCommand (Some (WithTimeout Background (MongoProvider.TimeOut m)))],
                None, None)"
    using a d by (simp add: replStatus_def Let_def)
  show "snd (replStatus m env (WithTimeout Background (MongoProvider.TimeOut m)) client uu)
          = (None, None)"
    by (simp add: r)
  show "outcome (mongo_Status m env req)
          = Returns (Some \<lparr>resp_Name = req_Name req, StatusCode = 200,
                           Body = [''status'' \<mapsto> JString ''ok''],
                           ResponseTime = Milliseconds (mongo_Since env)\<rparr>) None"
    using assms by (simp add: mongo_Status_def Let_def r bson_get_def)
next
  fix r err
  assume o: "outcome (mongo_Status m env req) = Returns (Some r) err"
  obtain tr rs e where rp:
    "replStatus m env (WithTimeout Background (MongoProvider.TimeOut m)) client uu = (tr, rs, e)"
    by (cases "replStatus m env (WithTimeout Background (MongoProvider.TimeOut m)) client uu") auto
  have e: "e = None"
    using o assms rp by (cases e) (simp_all add: mongo_Status_def Let_def)
  have body: "Body r ''rs'' \<noteq> None \<longleftrightarrow> bson_get rs ''info'' \<noteq> None"
    using o assms rp e by (cases "bson_get rs ''info''") (auto simp: mongo_Status_def Let_def)
  have "bson_get rs ''info'' \<noteq> None \<longleftrightarrow> Err (RunCommand env client) = None"
    using rp e
    by (auto simp: replStatus_def Let_def bson_get_def replset_report_def
             split: sum.splits option.splits if_splits list.splits prod.splits)
  with body show "Body r ''rs'' \<noteq> None \<longleftrightarrow> Err (RunCommand env client) = None"
    by simp
qed

theorem mongo_Status_standalone_witness:
  "snd (replStatus \<lparr>MongoProvider.TimeOut = 1000000000\<rparr> standalone_env
          (WithTimeout Background 1000000000) 1 plain_url) = (None, None)
   \<and> outcome (mongo_Status \<lparr>MongoProvider.TimeOut = 1000000000\<rparr> standalone_env
        \<lparr>req_Name = ''test'', req_URL = ''mongodb://localhost:27017''\<rparr>)
       = Returns (Some \<lparr>resp_Name = ''test'', StatusCode = 200,
                        Body = [''status'' \<mapsto> JString ''ok''], ResponseTime = 3\<rparr>) None"
proof -
  have c: "Connect standalone_env
             (req_URL \<lparr>req_Name = ''test'', req_URL = ''mongodb://localhost:27017''\<rparr>) = Inr 1"
    by (simp add: standalone_env_def)
  have u: "url_Parse standalone_env
             (req_URL \<lparr>req_Name = ''test'', req_URL = ''mongodb://localhost:27017''\<rparr>)
           = Inr plain_url"
    by (simp add: standalone_env_def)
  have e: "Err (RunCommand standalone_env 1)
             = Some ''(NoReplicationEnabled) not running with --replSet''"
    by (simp add: standalone_env_def)
  have q: "Values_Get (Query plain_url) ''oplogMaxDelta'' = []"
    by (simp add: plain_url_def Values_Get_def)
  have s: "Milliseconds (mongo_Since standalone_env) = 3"
    by (simp add: standalone_env_def Milliseconds_def)
  from mongo_Status_standalone [OF c u, of "\<lparr>MongoProvider.TimeOut = 1000000000\<rparr>"]
       e q contains_NoReplicationEnabled s
  show ?thesis by simp
qed

section \<open>Properties of MongoProvider.replStatus\<close>

lemma members_loop_step:
  "members_loop d p st ot (m # ms) =
     (if bad_state m then (''failed'', ot)
      else if lags d p m then (st, ''failed'')
      else members_loop d p st ot ms)"
  by (simp add: bad_state_def lags_def)

lemma scanned_Cons:
  "scanned (m # ms) = (if bad_state m then [] else m # scanned ms)"
  by (simp add: scanned_def)

text \<open>
  \<^verbatim>\<open>Sub\<close> saturates; for an \<open>oplogMaxDelta\<close> below the largest duration the comparison
  is the one of the exact difference.
\<close>

lemma lags_exact:
  assumes "minDuration \<le> d" and "d < maxDuration"
  shows "lags d p m \<longleftrightarrow> StateStr m = ''SECONDARY'' \<and> p - Optime_TS m > d"
  using assms by (auto simp: lags_def time_Sub_def Let_def)

text \<open>
  The loop in closed form: it ends at the first member that is in a bad state or lags,
  and sets the one variable that member calls for.
\<close>

lemma members_loop_eq:
  "members_loop d p st ot ms =
     (if \<exists>m \<in> set (scanned ms). lags d p m then (st, ''failed'')
      else if \<exists>m \<in> set ms. bad_state m then (''failed'', ot)
      else (st, ot))"
proof (induction ms)
  case Nil
  show ?case by (simp add: scanned_def)
next
  case (Cons m ms)
  show ?case
    unfolding members_loop_step scanned_Cons using Cons.IH by auto
qed

lemma replset_report_eq:
  assumes "Members replset \<noteq> []"
  shows "replset_report d replset =
     Inr [''info'' \<mapsto> BReplset replset,
          ''status'' \<mapsto> BString
             (if OK replset \<noteq> 1
                 \<or> ((\<exists>m \<in> set (Members replset). bad_state m)
                     \<and> \<not> (\<exists>m \<in> set (scanned (Members replset)).
                              lags d (Optime_TS (hd (Members replset))) m))
              then ''failed'' else ''ok''),
          ''optime'' \<mapsto> BString
             (if \<exists>m \<in> set (scanned (Members replset)).
                    lags d (Optime_TS (hd (Members replset))) m
              then ''failed'' else ''ok'')]"
proof -
  obtain m0 ms where ms: "Members replset = m0 # ms"
    using assms by (cases "Members replset") auto
  show ?thesis
    unfolding replset_report_def ms
    by (simp add: members_loop_eq del: members_loop.simps)
qed

lemma oplogMaxDelta_of_eq:
  "oplogMaxDelta_of env req =
     (case (if Values_Get (Query req) ''oplogMaxDelta'' = [] then Inr Minute
            else ParseDuration env (Values_Get (Query req) ''oplogMaxDelta'')) of
        Inl perr \<Rightarrow> Inl (''can't parse oplogMaxDelta: '' @ Host req @ '': '' @ perr)
      | Inr d \<Rightarrow> Inr d)"
  by (simp add: oplogMaxDelta_of_def)

text \<open>
  C9, as stated, fails: with a lagging SECONDARY before a member that is down, the loop
  stops at the SECONDARY and the status stays \<open>ok\<close>, although a member is in a bad state.
\<close>

theorem replStatus_status_counterexample:
  "bson_get (fst (snd (replStatus \<lparr>MongoProvider.TimeOut = five_seconds\<rparr>
        (replica_env lagging_then_down) (WithTimeout Background five_seconds) 1 plain_url)))
      ''status'' = Some (BString ''ok'')
   \<and> bad_state (Members lagging_then_down ! 2)
   \<and> OK lagging_then_down = 1"
  by (simp add: replStatus_def oplogMaxDelta_of_def replica_env_def standalone_env_def
        plain_url_def Values_Get_def decode_replset_def replset_report_def
        lagging_then_down_def bson_get_def bad_state_def time_Sub_def Minute_def
        minDuration_def maxDuration_def Let_def)

text \<open>
  C9, amended. \<open>oplogMaxDelta\<close> is one minute, or the query parameter of that name when
  it is not empty, and \<^verbatim>\<open>replStatus\<close> returns an error when that does not parse.
  Otherwise, for a decoded replica set with at least one member, the status is
  \<open>failed\<close> if and only if the OK field differs from 1, or some member is in a bad state
  and no member scanned before a bad state is reached lags; the optime is \<open>failed\<close> if
  and only if some member scanned before a bad state is reached lags (is a SECONDARY whose
  optime is behind the first member's by more than \<open>oplogMaxDelta\<close>).
\<close>

theorem replStatus_replica_set:
  assumes "Err (RunCommand env client) = None"
      and "decode_replset (RunCommand env client) = Inr replset"
      and "Members replset \<noteq> []"
  shows "case (if Values_Get (Query req) ''oplogMaxDelta'' = [] then Inr Minute
               else ParseDuration env (Values_Get (Query req) ''oplogMaxDelta'')) of
           Inl perr \<Rightarrow>
             snd (replStatus m env ctx client req) =
               (None, Some (''can't parse oplogMaxDelta: '' @ Host req @ '': '' @ perr))
         | Inr d \<Rightarrow>
             (\<exists>res status optime.
                snd (replStatus m env ctx client req) = (Some res, None)
                \<and> res ''status'' = Some (BString status)
                \<and> res ''optime'' = Some (BString optime)
                \<and> (status = ''failed'' \<or> status = ''ok'')
                \<and> (optime = ''failed'' \<or> optime = ''ok'')
                \<and> (status = ''failed'' \<longleftrightarrow>
                     OK replset \<noteq> 1
                     \<or> ((\<exists>x \<in> set (Members replset). bad_state x)
                         \<and> \<not> (\<exists>x \<in> set (scanned (Members replset)).
                                  lags d (Optime_TS (hd (Members replset))) x)))
                \<and> (optime = ''failed'' \<longleftrightarrow>
                     (\<exists>x \<in> set (scanned (Members replset)).
                        lags d (Optime_TS (hd (Members replset))) x)))"
proof (cases "if Values_Get (Query req) ''oplogMaxDelta'' = [] then Inr Minute
              else ParseDuration env (Values_Get (Query req) ''oplogMaxDelta'')")
  case (Inl perr)
  then have "oplogMaxDelta_of env req
               = Inl (''can't parse oplogMaxDelta: '' @ Host req @ '': '' @ perr)"
    by (simp add: oplogMaxDelta_of_eq)
  then have "snd (replStatus m env ctx client req) =
               (None, Some (''can't parse oplogMaxDelta: '' @ Host req @ '': '' @ perr))"
    by (simp add: replStatus_def)
  with Inl show ?thesis by simp
next
  case (Inr d)
  then have o: "oplogMaxDelta_of env req = Inr d"
    by (simp add: oplogMaxDelta_of_eq)
  have r: "snd (replStatus m env ctx client req) =
             (case replset_report d replset of
                Inl err \<Rightarrow> (None, Some err) | Inr res \<Rightarrow> (Some res, None))"
    using assms(1,2) o by (simp add: replStatus_def Let_def split: sum.splits)
  show ?thesis
    unfolding Inr r replset_report_eq [OF assms(3)]
    by simp
qed

theorem replStatus_replica_set_witness:
  "bson_get (fst (snd (replStatus \<lparr>MongoProvider.TimeOut = five_seconds\<rparr>
        (replica_env down_then_lagging) (WithTimeout Background five_seconds) 1 plain_url)))
      ''status'' = Some (BString ''failed'')
   \<and> bson_get (fst (snd (replStatus \<lparr>MongoProvider.TimeOut = five_seconds\<rparr>
        (replica_env down_then_lagging) (WithTimeout Background five_seconds) 1 plain_url)))
      ''optime'' = Some (BString ''ok'')"
proof -
  have e: "Err (RunCommand (replica_env down_then_lagging) 1) = None"
    by (simp add: replica_env_def standalone_env_def)
  have d: "decode_replset (RunCommand (replica_env down_then_lagging) 1) = Inr down_then_lagging"
    by (simp add: replica_env_def standalone_env_def decode_replset_def)
  have n: "Members down_then_lagging \<noteq> []"
    by (simp add: down_then_lagging_def)
  have q: "Values_Get (Query plain_url) ''oplogMaxDelta'' = []"
    by (simp add: plain_url_def Values_Get_def)
  have b: "\<exists>x \<in> set (Members down_then_lagging). bad_state x"
    by (simp add: down_then_lagging_def bad_state_def)
  have l: "\<not> (\<exists>x \<in> set (scanned (Members down_then_lagging)).
               lags Minute (Optime_TS (hd (Members down_then_lagging))) x)"
    by (simp add: down_then_lagging_def scanned_def bad_state_def lags_def)
  have k: "OK down_then_lagging = 1"
    by (simp add: down_then_lagging_def)
  from replStatus_replica_set [OF e d n, where req = plain_url
         and m = "\<lparr>MongoProvider.TimeOut = five_seconds\<rparr>"
         and ctx = "WithTimeout Background five_seconds"]
  show ?thesis
    unfolding q using b l k by (auto simp: bson_get_def)
qed

section \<open>Properties of the dispatch engine\<close>

lemma store_result_commute:
  assumes "fst x = fst y \<Longrightarrow> x = y"
  shows "store_result x \<circ> store_result y = store_result y \<circ> store_result x"
proof (cases "fst x = fst y")
  case True
  with assms show ?thesis by simp
next
  case False
  then show ?thesis
    by (auto simp: store_result_def fun_eq_iff list_update_swap)
qed

lemma work_items_snoc:
  "work_items (xs @ [x]) = work_items xs @ [(length xs, x)]"
  by (simp add: work_items_def)

lemma map_fst_work_items: "map fst (work_items xs) = [0..<length xs]"
  by (simp add: work_items_def)

lemma fold_store_in_order:
  "length xs \<le> M \<Longrightarrow>
   fold store_result (map (\<lambda>(i, req). (i, check req)) (work_items xs)) (replicate M None)
     = map (\<lambda>req. Some (check req)) xs @ replicate (M - length xs) None"
proof (induction xs rule: rev_induct)
  case Nil
  show ?case by (simp add: work_items_def)
next
  case (snoc x xs)
  then have le: "length xs < M" by simp
  then have IH: "fold store_result (map (\<lambda>(i, req). (i, check req)) (work_items xs))
                   (replicate M None)
                 = map (\<lambda>req. Some (check req)) xs @ replicate (M - length xs) None"
    using snoc.IH by simp
  have r: "replicate (M - length xs) None
             = (None :: CheckResult option) # replicate (M - Suc (length xs)) None"
    using le by (cases "M - length xs") (simp_all add: Suc_diff_Suc)
  have "fold store_result (map (\<lambda>(i, req). (i, check req)) (work_items (xs @ [x])))
          (replicate M None)
        = store_result (length xs, check x)
            (fold store_result (map (\<lambda>(i, req). (i, check req)) (work_items xs))
               (replicate M None))"
    by (simp add: work_items_snoc)
  also have "\<dots> = store_result (length xs, check x)
                      (map (\<lambda>req. Some (check req)) xs @ replicate (M - length xs) None)"
    by (simp only: IH)
  also have "\<dots> = map (\<lambda>req. Some (check req)) (xs @ [x])
                      @ replicate (M - length (xs @ [x])) None"
    by (simp add: store_result_def list_update_append r)
  finally show ?case .
qed

lemma map_filter_Some: "List.map_filter id (map (\<lambda>x. Some (f x)) xs) = map f xs"
  by (induction xs) (simp_all add: List.map_filter_simps)

lemma fold_store_any_order:
  assumes "mset completion = mset (work_items requests)"
  shows "fold store_result (map (\<lambda>(i, req). (i, check req)) completion) slots
           = fold store_result (map (\<lambda>(i, req). (i, check req)) (work_items requests)) slots"
proof -
  let ?f = "\<lambda>(i, req). (i, check req)"
  have "mset (map fst completion) = mset (map fst (work_items requests))"
    using assms by (metis mset_map)
  then have "distinct (map fst completion)"
    by (metis map_fst_work_items distinct_upt mset_eq_imp_distinct_iff)
  then have d: "distinct (map fst (map ?f completion))"
    by (simp add: case_prod_unfold comp_def)
  have c: "store_result x \<circ> store_result y = store_result y \<circ> store_result x"
    if "x \<in> set (map ?f completion)" "y \<in> set (map ?f completion)" for x y
  proof (rule store_result_commute)
    assume "fst x = fst y"
    with d that show "x = y"
      by (meson distinct_map inj_onD)
  qed
  have m: "mset (map ?f completion) = mset (map ?f (work_items requests))"
    using assms by (metis mset_map)
  have "fold store_result (map ?f completion) = fold store_result (map ?f (work_items requests))"
    by (rule fold_multiset_equiv [OF c m])
  then show ?thesis by simp
qed

text \<open>
  C2. Whatever the order in which the checks finish, \<^verbatim>\<open>RunAll\<close> returns one result for
  each request, the result of that request, in the order of the registry: as many results
  as requests, none dropped and none twice.
\<close>

theorem RunAll_results_in_registry_order:
  assumes "mset completion = mset (work_items requests)"
  shows "rep_results (RunAll check below_threshold vs ver now requests maxConcurrency completion)
           = map check requests
         \<and> length (rep_results
              (RunAll check below_threshold vs ver now requests maxConcurrency completion))
           = length requests"
  by (simp add: RunAll_def aggregate_def fold_store_any_order [OF assms]
        fold_store_in_order map_filter_Some)

theorem RunAll_results_in_registry_order_witness:
  "map res_name (rep_results (RunAll sample_check below_80 [root_volume] ''v1'' 0
       three_requests 2
       [(2, three_requests ! 2), (0, three_requests ! 0), (1, three_requests ! 1)]))
     = [''web'', ''db'', ''cert'']
   \<and> length (rep_results (RunAll sample_check below_80 [root_volume] ''v1'' 0
       three_requests 2
       [(2, three_requests ! 2), (0, three_requests ! 0), (1, three_requests ! 1)])) = 3"
proof -
  have p: "mset [(2, three_requests ! 2), (0, three_requests ! 0), (1, three_requests ! 1)]
             = mset (work_items three_requests)"
    by (simp add: work_items_def three_requests_def upt_rec)
  from RunAll_results_in_registry_order [OF p, of sample_check below_80 "[root_volume]"
         "''v1''" 0 2]
  show ?thesis
    by (simp add: three_requests_def sample_check_def)
qed

lemma verdict_eq: "fold (\<lambda>c acc. acc \<and> c) checks b = (b \<and> (\<forall>c \<in> set checks. c))"
  by (induction checks arbitrary: b) auto

text \<open>
  C3. The verdict of a report is true if and only if every result is ok and every volume
  passes its threshold check; with the \<open>ok\<close> of any one result set to false the verdict
  is false, and every other result is as it was.
\<close>

theorem RunAll_overallOk:
  "(overallOk (RunAll check below_threshold vs ver now requests maxConcurrency completion)
      \<longleftrightarrow> (\<forall>r \<in> set (rep_results
                   (RunAll check below_threshold vs ver now requests maxConcurrency completion)).
               ok r)
          \<and> (\<forall>v \<in> set (rep_volumes
                   (RunAll check below_threshold vs ver now requests maxConcurrency completion)).
               below_threshold v))
   \<and> (\<forall>rs i. rs = rep_results
                  (RunAll check below_threshold vs ver now requests maxConcurrency completion)
          \<and> i < length rs
        \<longrightarrow> \<not> overallOk (aggregate below_threshold (rs[i := (rs ! i)\<lparr>ok := False\<rparr>]) vs ver now)
            \<and> (\<forall>j < length rs. j \<noteq> i \<longrightarrow>
                  rep_results (aggregate below_threshold (rs[i := (rs ! i)\<lparr>ok := False\<rparr>])
                     vs ver now) ! j = rs ! j))"
proof (intro conjI allI impI)
  show "overallOk (RunAll check below_threshold vs ver now requests maxConcurrency completion)
      \<longleftrightarrow> (\<forall>r \<in> set (rep_results
                   (RunAll check below_threshold vs ver now requests maxConcurrency completion)).
               ok r)
          \<and> (\<forall>v \<in> set (rep_volumes
                   (RunAll check below_threshold vs ver now requests maxConcurrency completion)).
               below_threshold v)"
    by (auto simp: RunAll_def aggregate_def verdict_def verdict_eq Let_def)
next
  fix rs :: "CheckResult list" and i
  assume a: "rs = rep_results
                  (RunAll check below_threshold vs ver now requests maxConcurrency completion)
          \<and> i < length rs"
  then have il: "i < length rs" by (rule conjunct2)
  then have "(rs ! i)\<lparr>ok := False\<rparr> \<in> set (rs[i := (rs ! i)\<lparr>ok := False\<rparr>])"
    by (rule set_update_memI)
  then have "\<exists>r \<in> set (rs[i := (rs ! i)\<lparr>ok := False\<rparr>]). \<not> ok r"
    by (rule rev_bexI) simp
  then show "\<not> overallOk (aggregate below_threshold (rs[i := (rs ! i)\<lparr>ok := False\<rparr>]) vs ver now)"
    by (auto simp: aggregate_def verdict_def verdict_eq)
next
  fix rs :: "CheckResult list" and i j
  assume "j < length rs" "j \<noteq> i"
  then show "rep_results (aggregate below_threshold (rs[i := (rs ! i)\<lparr>ok := False\<rparr>])
                     vs ver now) ! j = rs ! j"
    by (simp add: aggregate_def)
qed

lemma RunAll_sample:
  "rep_results (RunAll sample_check below_80 [root_volume] ''v1'' 0
       [three_requests ! 0, three_requests ! 2] 2
       [(1, three_requests ! 2), (0, three_requests ! 0)])
   = [sample_check (three_requests ! 0), sample_check (three_requests ! 2)]"
  by (simp add: RunAll_def aggregate_def store_result_def List.map_filter_simps)

theorem RunAll_overallOk_witness:
  "overallOk (RunAll sample_check below_80 [root_volume] ''v1'' 0
       [three_requests ! 0, three_requests ! 2] 2
       [(1, three_requests ! 2), (0, three_requests ! 0)])
   \<and> \<not> overallOk (aggregate below_80
         [sample_check (three_requests ! 0), (sample_check (three_requests ! 2))\<lparr>ok := False\<rparr>]
         [root_volume] ''v1'' 0)"
proof -
  have v: "rep_volumes (RunAll sample_check below_80 [root_volume] ''v1'' 0
       [three_requests ! 0, three_requests ! 2] 2
       [(1, three_requests ! 2), (0, three_requests ! 0)]) = [root_volume]"
    by (simp add: RunAll_def aggregate_def Let_def)
  have k: "ok (sample_check (three_requests ! 0))" "ok (sample_check (three_requests ! 2))"
          "below_80 root_volume"
    by (simp_all add: sample_check_def three_requests_def below_80_def root_volume_def)
  from RunAll_overallOk [of sample_check below_80 "[root_volume]" "''v1''" 0
         "[three_requests ! 0, three_requests ! 2]" 2
         "[(1, three_requests ! 2), (0, three_requests ! 0)]"]
  have "overallOk (RunAll sample_check below_80 [root_volume] ''v1'' 0
       [three_requests ! 0, three_requests ! 2] 2
       [(1, three_requests ! 2), (0, three_requests ! 0)])"
    and "\<not> overallOk (aggregate below_80
         ([sample_check (three_requests ! 0), sample_check (three_requests ! 2)]
            [1 := ([sample_check (three_requests ! 0), sample_check (three_requests ! 2)] ! 1)
                     \<lparr>ok := False\<rparr>])
         [root_volume] ''v1'' 0)"
    unfolding RunAll_sample v using k by auto
  then show ?thesis by simp
qed

end
